theory Spec2Isabelle
  imports Main
begin

section \<open>Values, errors and concept calls\<close>

text \<open>
  The route layer of \<^verbatim>\<open>src/server/routes.ts\<close> is glue: every handler of class
  \<^verbatim>\<open>Routes\<close> makes a fixed sequence of calls into the concept modules
  (Sessioning, Authing, Posting, Friending, Commenting, Scheduling), into \<^verbatim>\<open>Responses\<close>
  and into the \<^verbatim>\<open>ObjectId\<close> constructor, and passes their results on. The modules
  themselves are not part of the file, so the handlers are embedded over an arbitrary
  implementation of them: a function that, given the module, the method name, the
  arguments and the current state of the application, returns or throws and yields the
  next state.

  JavaScript values are untyped at run time; the ones that flow through the handlers are
  modelled by one datatype.
\<close>

datatype val =
    VUndefined
  | VNull
  | VStr string
  | VOid nat
  | VDate string
  | VSession nat
  | VArr "val list"
  | VObj "(string \<times> val) list"

text \<open>What a handler can fail with: a value thrown by a call, or the \<^verbatim>\<open>TypeError\<close> of
  reading a property of \<^verbatim>\<open>undefined\<close> or \<^verbatim>\<open>null\<close>.\<close>

datatype error = Thrown val | TypeError

datatype target =
    Sessioning | Authing | Posting | Friending | Commenting | Scheduling
  | Responses | ObjectId | Console

text \<open>One call as it happened: module, method, arguments, and how it ended.\<close>

type_synonym event = "target \<times> string \<times> val list \<times> (error + val)"

type_synonym 's exec = "target \<Rightarrow> string \<Rightarrow> val list \<Rightarrow> 's \<Rightarrow> (error + val) \<times> 's"

text \<open>A handler body: from the state to its outcome, the next state, and the calls it made
  in order.\<close>

type_synonym ('s, 'a) route = "'s \<Rightarrow> (error + 'a) \<times> 's \<times> event list"

definition ret :: "'a \<Rightarrow> ('s, 'a) route" where
  "ret a = (\<lambda>w. (Inr a, w, []))"

text \<open>Sequencing as an \<^verbatim>\<open>async\<close> function without \<^verbatim>\<open>try\<close> does it: a throw ends
  the body.\<close>

definition bind :: "('s, 'a) route \<Rightarrow> ('a \<Rightarrow> ('s, 'b) route) \<Rightarrow> ('s, 'b) route" where
  "bind m f = (\<lambda>w.
     case m w of
       (Inl e, w1, t1) \<Rightarrow> (Inl e, w1, t1)
     | (Inr a, w1, t1) \<Rightarrow> (case f a w1 of (r, w2, t2) \<Rightarrow> (r, w2, t1 @ t2)))"

definition call :: "'s exec \<Rightarrow> target \<Rightarrow> string \<Rightarrow> val list \<Rightarrow> ('s, val) route" where
  "call ex t m as = (\<lambda>w. case ex t m as w of (r, w1) \<Rightarrow> (r, w1, [(t, m, as, r)]))"

text \<open>\<^verbatim>\<open>console.log\<close> writes a line and returns \<^verbatim>\<open>undefined\<close>; it does not touch the
  application state.\<close>

definition console_log :: "string \<Rightarrow> ('s, val) route" where
  "console_log msg = (\<lambda>w. (Inr VUndefined, w, [(Console, ''log'', [VStr msg], Inr VUndefined)]))"

text \<open>Property read \<^verbatim>\<open>v.k\<close> for the property names the handlers read
  (\<^verbatim>\<open>_id\<close>, \<^verbatim>\<open>msg\<close>, \<^verbatim>\<open>post\<close>, \<^verbatim>\<open>comment\<close>, \<^verbatim>\<open>event\<close>): a \<^verbatim>\<open>TypeError\<close> on
  \<^verbatim>\<open>undefined\<close> and \<^verbatim>\<open>null\<close>, the field of an object, \<^verbatim>\<open>undefined\<close> otherwise.\<close>

fun get_prop :: "val \<Rightarrow> string \<Rightarrow> error + val" where
  "get_prop VUndefined k = Inl TypeError"
| "get_prop VNull k = Inl TypeError"
| "get_prop (VObj fs) k = (case map_of fs k of Some x \<Rightarrow> Inr x | None \<Rightarrow> Inr VUndefined)"
| "get_prop v k = Inr VUndefined"

definition read_prop :: "val \<Rightarrow> string \<Rightarrow> ('s, val) route" where
  "read_prop v k = (\<lambda>w. (get_prop v k, w, []))"

text \<open>An optional string parameter as the value the handler passes on.\<close>

fun opt_str :: "string option \<Rightarrow> val" where
  "opt_str None = VUndefined"
| "opt_str (Some s) = VStr s"

text \<open>\<^verbatim>\<open>if (author)\<close>, \<^verbatim>\<open>startTime ? ... : ...\<close>: an absent and an empty string are
  both falsy.\<close>

fun truthy :: "string option \<Rightarrow> bool" where
  "truthy None = False"
| "truthy (Some s) = (s \<noteq> [])"

text \<open>\<^verbatim>\<open>t ? new Date(t) : undefined\<close>\<close>

fun opt_date :: "string option \<Rightarrow> val" where
  "opt_date None = VUndefined"
| "opt_date (Some t) = (if t = [] then VUndefined else VDate t)"

datatype event_type = focus | social

fun type_str :: "event_type \<Rightarrow> string" where
  "type_str focus = ''focus''"
| "type_str social = ''social''"

fun opt_type :: "event_type option \<Rightarrow> val" where
  "opt_type None = VUndefined"
| "opt_type (Some t) = VStr (type_str t)"

definition run :: "('s, 'a) route \<Rightarrow> 's \<Rightarrow> (error + 'a) \<times> 's \<times> event list" where
  "run m w = m w"


section \<open>The handlers of class Routes\<close>

text \<open>
  Each definition follows one method of \<^verbatim>\<open>Routes\<close>, call by call. The first
  parameter is the implementation of the modules; the others are the method's own. The
  parameter \<^verbatim>\<open>id\<close> is written \<open>id'\<close> and \<^verbatim>\<open>type\<close> is written \<open>ty\<close>.
\<close>

definition getSessionUser :: "'s exec \<Rightarrow> val \<Rightarrow> ('s, val) route" where
  "getSessionUser ex session =
     bind (call ex Sessioning ''getUser'' [session]) (\<lambda>user.
     call ex Authing ''getUserById'' [user])"

definition getUsers :: "'s exec \<Rightarrow> ('s, val) route" where
  "getUsers ex = call ex Authing ''getUsers'' []"

definition getUser :: "'s exec \<Rightarrow> string \<Rightarrow> ('s, val) route" where
  "getUser ex username = call ex Authing ''getUserByUsername'' [VStr username]"

definition createUser :: "'s exec \<Rightarrow> val \<Rightarrow> string \<Rightarrow> string \<Rightarrow> ('s, val) route" where
  "createUser ex session username password =
     bind (call ex Sessioning ''isLoggedOut'' [session]) (\<lambda>_.
     call ex Authing ''create'' [VStr username, VStr password])"

definition updateUsername :: "'s exec \<Rightarrow> val \<Rightarrow> string \<Rightarrow> ('s, val) route" where
  "updateUsername ex session username =
     bind (call ex Sessioning ''getUser'' [session]) (\<lambda>user.
     call ex Authing ''updateUsername'' [user, VStr username])"

definition updatePassword :: "'s exec \<Rightarrow> val \<Rightarrow> string \<Rightarrow> string \<Rightarrow> ('s, val) route" where
  "updatePassword ex session currentPassword newPassword =
     bind (call ex Sessioning ''getUser'' [session]) (\<lambda>user.
     call ex Authing ''updatePassword'' [user, VStr currentPassword, VStr newPassword])"

definition deleteUser :: "'s exec \<Rightarrow> val \<Rightarrow> ('s, val) route" where
  "deleteUser ex session =
     bind (call ex Sessioning ''getUser'' [session]) (\<lambda>user.
     bind (call ex Sessioning ''end'' [session]) (\<lambda>_.
     call ex Authing ''delete'' [user]))"

definition logIn :: "'s exec \<Rightarrow> val \<Rightarrow> string \<Rightarrow> string \<Rightarrow> ('s, val) route" where
  "logIn ex session username password =
     bind (call ex Authing ''authenticate'' [VStr username, VStr password]) (\<lambda>u.
     bind (read_prop u ''_id'') (\<lambda>uid.
     bind (call ex Sessioning ''start'' [session, uid]) (\<lambda>_.
     ret (VObj [(''msg'', VStr ''Logged in!'')]))))"

definition logOut :: "'s exec \<Rightarrow> val \<Rightarrow> ('s, val) route" where
  "logOut ex session =
     bind (call ex Sessioning ''end'' [session]) (\<lambda>_.
     ret (VObj [(''msg'', VStr ''Logged out!'')]))"

definition getPosts :: "'s exec \<Rightarrow> string option \<Rightarrow> ('s, val) route" where
  "getPosts ex author =
     bind (if truthy author
           then bind (call ex Authing ''getUserByUsername'' [opt_str author]) (\<lambda>u.
                bind (read_prop u ''_id'') (\<lambda>id'.
                call ex Posting ''getByAuthor'' [id']))
           else call ex Posting ''getPosts'' []) (\<lambda>posts.
     call ex Responses ''posts'' [posts])"

definition createPost :: "'s exec \<Rightarrow> val \<Rightarrow> string \<Rightarrow> val \<Rightarrow> ('s, val) route" where
  "createPost ex session content options =
     bind (call ex Sessioning ''getUser'' [session]) (\<lambda>user.
     bind (call ex Posting ''create'' [user, VStr content, options]) (\<lambda>created.
     bind (read_prop created ''msg'') (\<lambda>msg.
     bind (read_prop created ''post'') (\<lambda>post.
     bind (call ex Responses ''post'' [post]) (\<lambda>shaped.
     ret (VObj [(''msg'', msg), (''post'', shaped)]))))))"

definition updatePost ::
  "'s exec \<Rightarrow> val \<Rightarrow> string \<Rightarrow> string option \<Rightarrow> val \<Rightarrow> ('s, val) route" where
  "updatePost ex session id' content options =
     bind (call ex Sessioning ''getUser'' [session]) (\<lambda>user.
     bind (call ex ObjectId ''new'' [VStr id']) (\<lambda>oid.
     bind (call ex Posting ''assertAuthorIsUser'' [oid, user]) (\<lambda>_.
     call ex Posting ''update'' [oid, opt_str content, options])))"

definition deletePost :: "'s exec \<Rightarrow> val \<Rightarrow> string \<Rightarrow> ('s, val) route" where
  "deletePost ex session id' =
     bind (call ex Sessioning ''getUser'' [session]) (\<lambda>user.
     bind (call ex ObjectId ''new'' [VStr id']) (\<lambda>oid.
     bind (call ex Posting ''assertAuthorIsUser'' [oid, user]) (\<lambda>_.
     call ex Posting ''delete'' [oid])))"

definition getFriends :: "'s exec \<Rightarrow> val \<Rightarrow> ('s, val) route" where
  "getFriends ex session =
     bind (call ex Sessioning ''getUser'' [session]) (\<lambda>user.
     bind (call ex Friending ''getFriends'' [user]) (\<lambda>ids.
     call ex Authing ''idsToUsernames'' [ids]))"

definition removeFriend :: "'s exec \<Rightarrow> val \<Rightarrow> string \<Rightarrow> ('s, val) route" where
  "removeFriend ex session friend =
     bind (call ex Sessioning ''getUser'' [session]) (\<lambda>user.
     bind (call ex Authing ''getUserByUsername'' [VStr friend]) (\<lambda>u.
     bind (read_prop u ''_id'') (\<lambda>friendOid.
     call ex Friending ''removeFriend'' [user, friendOid])))"

definition getRequests :: "'s exec \<Rightarrow> val \<Rightarrow> ('s, val) route" where
  "getRequests ex session =
     bind (call ex Sessioning ''getUser'' [session]) (\<lambda>user.
     bind (call ex Friending ''getRequests'' [user]) (\<lambda>reqs.
     call ex Responses ''friendRequests'' [reqs]))"

definition sendFriendRequest :: "'s exec \<Rightarrow> val \<Rightarrow> string \<Rightarrow> ('s, val) route" where
  "sendFriendRequest ex session to =
     bind (call ex Sessioning ''getUser'' [session]) (\<lambda>user.
     bind (call ex Authing ''getUserByUsername'' [VStr to]) (\<lambda>u.
     bind (read_prop u ''_id'') (\<lambda>toOid.
     call ex Friending ''sendRequest'' [user, toOid])))"

definition removeFriendRequest :: "'s exec \<Rightarrow> val \<Rightarrow> string \<Rightarrow> ('s, val) route" where
  "removeFriendRequest ex session to =
     bind (call ex Sessioning ''getUser'' [session]) (\<lambda>user.
     bind (call ex Authing ''getUserByUsername'' [VStr to]) (\<lambda>u.
     bind (read_prop u ''_id'') (\<lambda>toOid.
     call ex Friending ''removeRequest'' [user, toOid])))"

definition acceptFriendRequest :: "'s exec \<Rightarrow> val \<Rightarrow> string \<Rightarrow> ('s, val) route" where
  "acceptFriendRequest ex session from =
     bind (call ex Sessioning ''getUser'' [session]) (\<lambda>user.
     bind (call ex Authing ''getUserByUsername'' [VStr from]) (\<lambda>u.
     bind (read_prop u ''_id'') (\<lambda>fromOid.
     call ex Friending ''acceptRequest'' [fromOid, user])))"

definition rejectFriendRequest :: "'s exec \<Rightarrow> val \<Rightarrow> string \<Rightarrow> ('s, val) route" where
  "rejectFriendRequest ex session from =
     bind (call ex Sessioning ''getUser'' [session]) (\<lambda>user.
     bind (call ex Authing ''getUserByUsername'' [VStr from]) (\<lambda>u.
     bind (read_prop u ''_id'') (\<lambda>fromOid.
     call ex Friending ''rejectRequest'' [fromOid, user])))"

definition getComments :: "'s exec \<Rightarrow> string \<Rightarrow> ('s, val) route" where
  "getComments ex postId =
     bind (call ex ObjectId ''new'' [VStr postId]) (\<lambda>postObjectId.
     bind (call ex Commenting ''getCommentsForPost'' [postObjectId]) (\<lambda>comments.
     call ex Responses ''comments'' [comments]))"

definition createComment ::
  "'s exec \<Rightarrow> val \<Rightarrow> string \<Rightarrow> string \<Rightarrow> val \<Rightarrow> ('s, val) route" where
  "createComment ex session postId content options =
     bind (console_log ''hey'') (\<lambda>_.
     bind (call ex Sessioning ''getUser'' [session]) (\<lambda>user.
     bind (console_log ''hey again'') (\<lambda>_.
     bind (call ex ObjectId ''new'' [VStr postId]) (\<lambda>postObjectId.
     bind (call ex Commenting ''create'' [postObjectId, user, VStr content, options]) (\<lambda>created.
     bind (read_prop created ''msg'') (\<lambda>msg.
     bind (read_prop created ''comment'') (\<lambda>comment.
     bind (call ex Responses ''comment'' [comment]) (\<lambda>shaped.
     ret (VObj [(''msg'', msg), (''comment'', shaped)])))))))))"

definition updateComment ::
  "'s exec \<Rightarrow> val \<Rightarrow> string \<Rightarrow> string option \<Rightarrow> val \<Rightarrow> ('s, val) route" where
  "updateComment ex session id' content options =
     bind (call ex Sessioning ''getUser'' [session]) (\<lambda>user.
     bind (call ex ObjectId ''new'' [VStr id']) (\<lambda>commentObjectId.
     bind (call ex Commenting ''assertAuthorIsUser'' [commentObjectId, user]) (\<lambda>_.
     call ex Commenting ''update'' [commentObjectId, opt_str content, options])))"

definition deleteComment :: "'s exec \<Rightarrow> val \<Rightarrow> string \<Rightarrow> ('s, val) route" where
  "deleteComment ex session id' =
     bind (call ex Sessioning ''getUser'' [session]) (\<lambda>user.
     bind (call ex ObjectId ''new'' [VStr id']) (\<lambda>commentObjectId.
     bind (call ex Commenting ''assertAuthorIsUser'' [commentObjectId, user]) (\<lambda>_.
     call ex Commenting ''delete'' [commentObjectId])))"

definition getEvents :: "'s exec \<Rightarrow> val \<Rightarrow> ('s, val) route" where
  "getEvents ex session =
     bind (call ex Sessioning ''getUser'' [session]) (\<lambda>user.
     bind (call ex Scheduling ''getEventsByUser'' [user]) (\<lambda>events.
     call ex Responses ''events'' [events]))"

definition createEvent ::
  "'s exec \<Rightarrow> val \<Rightarrow> string \<Rightarrow> string \<Rightarrow> string \<Rightarrow> event_type \<Rightarrow> ('s, val) route" where
  "createEvent ex session name startTime endTime ty =
     bind (call ex Sessioning ''getUser'' [session]) (\<lambda>user.
     bind (call ex Scheduling ''create''
             [user, VStr name, VDate startTime, VDate endTime,
              VObj [(''type'', VStr (type_str ty))]]) (\<lambda>created.
     bind (read_prop created ''msg'') (\<lambda>msg.
     bind (read_prop created ''event'') (\<lambda>event.
     bind (call ex Responses ''event'' [event]) (\<lambda>shaped.
     ret (VObj [(''msg'', msg), (''event'', shaped)]))))))"

definition updateEvent ::
  "'s exec \<Rightarrow> val \<Rightarrow> string \<Rightarrow> string option \<Rightarrow> string option \<Rightarrow> string option \<Rightarrow>
   event_type option \<Rightarrow> ('s, val) route" where
  "updateEvent ex session id' name startTime endTime ty =
     bind (call ex Sessioning ''getUser'' [session]) (\<lambda>user.
     bind (call ex ObjectId ''new'' [VStr id']) (\<lambda>eventId.
     bind (call ex Scheduling ''assertUserIsOwner'' [eventId, user]) (\<lambda>_.
     call ex Scheduling ''update''
       [eventId, opt_str name, opt_date startTime, opt_date endTime,
        VObj [(''type'', opt_type ty)]])))"

definition deleteEvent :: "'s exec \<Rightarrow> val \<Rightarrow> string \<Rightarrow> ('s, val) route" where
  "deleteEvent ex session id' =
     bind (call ex Sessioning ''getUser'' [session]) (\<lambda>user.
     bind (call ex ObjectId ''new'' [VStr id']) (\<lambda>eventId.
     bind (call ex Scheduling ''assertUserIsOwner'' [eventId, user]) (\<lambda>_.
     call ex Scheduling ''delete'' [eventId])))"


section \<open>Requests and the route table\<close>

text \<open>A request is one invocation of a method of \<^verbatim>\<open>Routes\<close> with its arguments, as the
  router makes it.\<close>

datatype request =
    GetSessionUser val
  | GetUsers
  | GetUser string
  | CreateUser val string string
  | UpdateUsername val string
  | UpdatePassword val string string
  | DeleteUser val
  | LogIn val string string
  | LogOut val
  | GetPosts "string option"
  | CreatePost val string val
  | UpdatePost val string "string option" val
  | DeletePost val string
  | GetFriends val
  | RemoveFriend val string
  | GetRequests val
  | SendFriendRequest val string
  | RemoveFriendRequest val string
  | AcceptFriendRequest val string
  | RejectFriendRequest val string
  | GetComments string
  | CreateComment val string string val
  | UpdateComment val string "string option" val
  | DeleteComment val string
  | GetEvents val
  | CreateEvent val string string string event_type
  | UpdateEvent val string "string option" "string option" "string option" "event_type option"
  | DeleteEvent val string

primrec handle :: "'s exec \<Rightarrow> request \<Rightarrow> ('s, val) route" where
  "handle ex (GetSessionUser s) = getSessionUser ex s"
| "handle ex GetUsers = getUsers ex"
| "handle ex (GetUser u) = getUser ex u"
| "handle ex (CreateUser s u p) = createUser ex s u p"
| "handle ex (UpdateUsername s u) = updateUsername ex s u"
| "handle ex (UpdatePassword s c n) = updatePassword ex s c n"
| "handle ex (DeleteUser s) = deleteUser ex s"
| "handle ex (LogIn s u p) = logIn ex s u p"
| "handle ex (LogOut s) = logOut ex s"
| "handle ex (GetPosts a) = getPosts ex a"
| "handle ex (CreatePost s c opts) = createPost ex s c opts"
| "handle ex (UpdatePost s i c opts) = updatePost ex s i c opts"
| "handle ex (DeletePost s i) = deletePost ex s i"
| "handle ex (GetFriends s) = getFriends ex s"
| "handle ex (RemoveFriend s f) = removeFriend ex s f"
| "handle ex (GetRequests s) = getRequests ex s"
| "handle ex (SendFriendRequest s t) = sendFriendRequest ex s t"
| "handle ex (RemoveFriendRequest s t) = removeFriendRequest ex s t"
| "handle ex (AcceptFriendRequest s f) = acceptFriendRequest ex s f"
| "handle ex (RejectFriendRequest s f) = rejectFriendRequest ex s f"
| "handle ex (GetComments p) = getComments ex p"
| "handle ex (CreateComment s p c opts) = createComment ex s p c opts"
| "handle ex (UpdateComment s i c opts) = updateComment ex s i c opts"
| "handle ex (DeleteComment s i) = deleteComment ex s i"
| "handle ex (GetEvents s) = getEvents ex s"
| "handle ex (CreateEvent s n st en ty) = createEvent ex s n st en ty"
| "handle ex (UpdateEvent s i n st en ty) = updateEvent ex s i n st en ty"
| "handle ex (DeleteEvent s i) = deleteEvent ex s i"

text \<open>The decorators \<^verbatim>\<open>@Router.get\<close>, \<^verbatim>\<open>@Router.post\<close>, ... in the order of the
  file: HTTP method, path pattern, name of the method of \<^verbatim>\<open>Routes\<close> they register.\<close>

datatype http_method = GET | POST | PATCH | DELETE | PUT

definition routes :: "(http_method \<times> string \<times> string) list" where
  "routes =
    [(GET, ''/session'', ''getSessionUser''),
     (GET, ''/users'', ''getUsers''),
     (GET, ''/users/:username'', ''getUser''),
     (POST, ''/users'', ''createUser''),
     (PATCH, ''/users/username'', ''updateUsername''),
     (PATCH, ''/users/password'', ''updatePassword''),
     (DELETE, ''/users'', ''deleteUser''),
     (POST, ''/login'', ''logIn''),
     (POST, ''/logout'', ''logOut''),
     (GET, ''/posts'', ''getPosts''),
     (POST, ''/posts'', ''createPost''),
     (PATCH, ''/posts/:id'', ''updatePost''),
     (DELETE, ''/posts/:id'', ''deletePost''),
     (GET, ''/friends'', ''getFriends''),
     (DELETE, ''/friends/:friend'', ''removeFriend''),
     (GET, ''/friend/requests'', ''getRequests''),
     (POST, ''/friend/requests/:to'', ''sendFriendRequest''),
     (DELETE, ''/friend/requests/:to'', ''removeFriendRequest''),
     (PUT, ''/friend/accept/:from'', ''acceptFriendRequest''),
     (PUT, ''/friend/reject/:from'', ''rejectFriendRequest''),
     (GET, ''/posts/:postId/comments'', ''getComments''),
     (POST, ''/comments/:postId'', ''createComment''),
     (PATCH, ''/comments/:id'', ''updateComment''),
     (DELETE, ''/comments/:id'', ''deleteComment''),
     (GET, ''/events'', ''getEvents''),
     (POST, ''/events'', ''createEvent''),
     (PATCH, ''/events/:id'', ''updateEvent''),
     (DELETE, ''/events/:id'', ''deleteEvent'')]"

text \<open>The methods registered for an HTTP method and path pattern, and the registrations of
  a method of \<^verbatim>\<open>Routes\<close>.\<close>

definition registered_at :: "http_method \<Rightarrow> string \<Rightarrow> string list" where
  "registered_at m p = map (\<lambda>(m', p', h). h) (filter (\<lambda>(m', p', h). m' = m \<and> p' = p) routes)"

definition registrations_of :: "string \<Rightarrow> (http_method \<times> string) list" where
  "registrations_of h = map (\<lambda>(m, p, h'). (m, p)) (filter (\<lambda>(m, p, h'). h' = h) routes)"


text \<open>The session parameter of the handlers that act for the user of the session: they
  use the user id the session is bound to. \<^verbatim>\<open>createUser\<close>, \<^verbatim>\<open>logIn\<close> and
  \<^verbatim>\<open>logOut\<close> take the session as well, but check, start and end the session itself and
  use no user id of it.\<close>

primrec acting_session :: "request \<Rightarrow> val option" where
  "acting_session (GetSessionUser s) = Some s"
| "acting_session GetUsers = None"
| "acting_session (GetUser u) = None"
| "acting_session (CreateUser s u p) = None"
| "acting_session (UpdateUsername s u) = Some s"
| "acting_session (UpdatePassword s c n) = Some s"
| "acting_session (DeleteUser s) = Some s"
| "acting_session (LogIn s u p) = None"
| "acting_session (LogOut s) = None"
| "acting_session (GetPosts a) = None"
| "acting_session (CreatePost s c opts) = Some s"
| "acting_session (UpdatePost s i c opts) = Some s"
| "acting_session (DeletePost s i) = Some s"
| "acting_session (GetFriends s) = Some s"
| "acting_session (RemoveFriend s f) = Some s"
| "acting_session (GetRequests s) = Some s"
| "acting_session (SendFriendRequest s t) = Some s"
| "acting_session (RemoveFriendRequest s t) = Some s"
| "acting_session (AcceptFriendRequest s f) = Some s"
| "acting_session (RejectFriendRequest s f) = Some s"
| "acting_session (GetComments p) = None"
| "acting_session (CreateComment s p c opts) = Some s"
| "acting_session (UpdateComment s i c opts) = Some s"
| "acting_session (DeleteComment s i) = Some s"
| "acting_session (GetEvents s) = Some s"
| "acting_session (CreateEvent s n st en ty) = Some s"
| "acting_session (UpdateEvent s i n st en ty) = Some s"
| "acting_session (DeleteEvent s i) = Some s"

section \<open>Reading a trace\<close>

text \<open>The calls of a trace that leave the route layer: all but the \<^verbatim>\<open>console.log\<close>
  lines.\<close>

definition module_calls :: "event list \<Rightarrow> event list" where
  "module_calls tr = filter (\<lambda>(t, m, as, r). t \<noteq> Console) tr"

text \<open>The run that, after the calls \<open>tr\<close>, makes the call \<open>t.m(as)\<close> in state \<open>w\<close> and ends
  with the outcome of that call.\<close>

definition delegates ::
  "'s exec \<Rightarrow> event list \<Rightarrow> target \<Rightarrow> string \<Rightarrow> val list \<Rightarrow> 's \<Rightarrow>
   (error + val) \<times> 's \<times> event list" where
  "delegates ex tr t m as w = (case ex t m as w of (r, w1) \<Rightarrow> (r, w1, tr @ [(t, m, as, r)]))"

text \<open>A trace in which every call returned.\<close>

fun returned :: "event list \<Rightarrow> bool" where
  "returned [] = True"
| "returned ((t, m, as, r) # evs) = (case r of Inl e \<Rightarrow> False | Inr v \<Rightarrow> returned evs)"

text \<open>The outcome \<open>res\<close> of a handler passes the failures of its trace on: a call that threw
  is the last call of the trace (nothing is retried, nothing runs after it), and the handler
  fails with the very error of that call.\<close>

fun propagates :: "(error + val) \<Rightarrow> event list \<Rightarrow> bool" where
  "propagates res [] = True"
| "propagates res ((t, m, as, r) # evs) =
     (case r of
        Inl e \<Rightarrow> evs = [] \<and> res = Inl e
      | Inr v \<Rightarrow> propagates res evs)"

text \<open>A handler body that, in every state, returns only when each of its calls returned, and
  otherwise passes the failure on.\<close>

definition transparent :: "('s, 'a) route \<Rightarrow> bool" where
  "transparent m = (\<forall>w. case m w of (res, w1, tr) \<Rightarrow>
      (case res of Inl e \<Rightarrow> propagates (Inl e) tr | Inr a \<Rightarrow> returned tr))"

section \<open>The concepts behind the friend and account routes\<close>

text \<open>
  The Sessioning, Authing and Friending concepts (\<^verbatim>\<open>./app\<close>, \<^verbatim>\<open>./concepts/*\<close>)
  are not among the files. The spec describes a session as the binding of an HTTP session to
  a logged-in user id, a user as an identity with a unique username and a password, and a
  friend request as a (from, to) pair in state pending, accepted or rejected, with a
  symmetric friendship materialising on acceptance. The definitions of this section follow
  these words; they stand in for the missing code where a property is about the state the
  concepts keep.
\<close>

text \<open>Modelled from the spec: the states of a friend request of the Friending concept,
  missing from the sources.\<close>

datatype request_state = pending | accepted | rejected

text \<open>Modelled from the spec: the state of the three concepts, missing from the sources.
  Sessions bound to user ids, accounts (id, username, password), the state of each
  (from, to) request, and the friendships that materialised.\<close>

record world =
  session_user :: "val \<Rightarrow> val option"
  accounts :: "(val \<times> string \<times> string) list"
  friend_requests :: "val \<times> val \<Rightarrow> request_state option"
  friendships :: "(val \<times> val) list"

text \<open>Modelled from the spec: \<^verbatim>\<open>Sessioning.getUser\<close>, missing from the sources. The user
  id the session is bound to; a session that is not logged in is refused.\<close>

definition sessioning_getUser :: "val \<Rightarrow> world \<Rightarrow> (error + val) \<times> world" where
  "sessioning_getUser session w =
     (case session_user w session of
        Some user \<Rightarrow> (Inr user, w)
      | None \<Rightarrow> (Inl (Thrown (VStr ''not-authorized'')), w))"

text \<open>Modelled from the spec: \<^verbatim>\<open>Sessioning.end\<close>, missing from the sources. The end of
  the session's lifecycle: the session is bound to no user any more.\<close>

definition sessioning_end :: "val \<Rightarrow> world \<Rightarrow> (error + val) \<times> world" where
  "sessioning_end session w =
     (Inr VUndefined, w\<lparr>session_user := (session_user w)(session := None)\<rparr>)"

text \<open>Modelled from the spec: the account of a username in the Authing concept, missing
  from the sources (usernames are unique, so the first account of a name is the account of
  that name).\<close>

definition user_named :: "world \<Rightarrow> val \<Rightarrow> (val \<times> string \<times> string) option" where
  "user_named w username = find (\<lambda>(i, n, p). VStr n = username) (accounts w)"



text \<open>Modelled from the spec: \<^verbatim>\<open>Authing.getUserByUsername\<close>, missing from the sources.
  The user document of a username, not-found when there is none.\<close>

definition authing_getUserByUsername :: "val \<Rightarrow> world \<Rightarrow> (error + val) \<times> world" where
  "authing_getUserByUsername username w =
     (case user_named w username of
        Some (i, n, p) \<Rightarrow> (Inr (VObj [(''_id'', i), (''username'', VStr n)]), w)
      | None \<Rightarrow> (Inl (Thrown (VStr ''not-found'')), w))"

text \<open>Modelled from the spec: \<^verbatim>\<open>Authing.delete\<close>, missing from the sources. The account
  of the user id is removed.\<close>

definition authing_delete :: "val \<Rightarrow> world \<Rightarrow> (error + val) \<times> world" where
  "authing_delete user w =
     (Inr (VObj [(''msg'', VStr ''User deleted!'')]),
      w\<lparr>accounts := filter (\<lambda>(i, n, p). i \<noteq> user) (accounts w)\<rparr>)"


text \<open>Modelled from the spec: a pending request of the Friending concept, missing from the
  sources. The request from \<open>a\<close> to \<open>b\<close> is pending when the pair (a, b) is in state
  pending.\<close>

definition is_pending :: "world \<Rightarrow> val \<Rightarrow> val \<Rightarrow> bool" where
  "is_pending w a b = (friend_requests w (a, b) = Some pending)"

text \<open>Modelled from the spec: \<^verbatim>\<open>Friending.sendRequest\<close>, missing from the sources. The
  pair (from, to) becomes pending. The spec names no case in which a request is refused, so
  none is modelled.\<close>

definition friending_sendRequest :: "val \<Rightarrow> val \<Rightarrow> world \<Rightarrow> (error + val) \<times> world" where
  "friending_sendRequest from to w =
     (Inr (VObj [(''msg'', VStr ''Sent request!'')]),
      w\<lparr>friend_requests := (friend_requests w)((from, to) \<mapsto> pending)\<rparr>)"

text \<open>Modelled from the spec: \<^verbatim>\<open>Friending.acceptRequest\<close>, missing from the sources. A
  pending request becomes accepted and the friendship materialises; without a pending
  request there is nothing to accept (not-found).\<close>

definition friending_acceptRequest :: "val \<Rightarrow> val \<Rightarrow> world \<Rightarrow> (error + val) \<times> world" where
  "friending_acceptRequest from to w =
     (if is_pending w from to
      then (Inr (VObj [(''msg'', VStr ''Accepted request!'')]),
            w\<lparr>friend_requests := (friend_requests w)((from, to) \<mapsto> accepted),
              friendships := (from, to) # friendships w\<rparr>)
      else (Inl (Thrown (VStr ''not-found'')), w))"

text \<open>Modelled from the spec: \<^verbatim>\<open>Friending.rejectRequest\<close>, missing from the sources. A
  pending request becomes rejected; without a pending request there is nothing to reject
  (not-found).\<close>

definition friending_rejectRequest :: "val \<Rightarrow> val \<Rightarrow> world \<Rightarrow> (error + val) \<times> world" where
  "friending_rejectRequest from to w =
     (if is_pending w from to
      then (Inr (VObj [(''msg'', VStr ''Rejected request!'')]),
            w\<lparr>friend_requests := (friend_requests w)((from, to) \<mapsto> rejected)\<rparr>)
      else (Inl (Thrown (VStr ''not-found'')), w))"

text \<open>Modelled from the spec: the modules as the handlers call them, by module, method
  name and arguments. Every method that is not modelled above is left to \<open>rest\<close>, an
  arbitrary implementation.\<close>

definition app_exec :: "world exec \<Rightarrow> world exec" where
  "app_exec rest t m as w =
     (case (t, as) of
        (Sessioning, [session]) \<Rightarrow>
          if m = ''getUser'' then sessioning_getUser session w
          else if m = ''end'' then sessioning_end session w
          else rest t m as w
      | (Authing, [a]) \<Rightarrow>
          if m = ''getUserByUsername'' then authing_getUserByUsername a w
          else if m = ''delete'' then authing_delete a w
          else rest t m as w
      | (Friending, [from, to]) \<Rightarrow>
          if m = ''sendRequest'' then friending_sendRequest from to w
          else if m = ''acceptRequest'' then friending_acceptRequest from to w
          else if m = ''rejectRequest'' then friending_rejectRequest from to w
          else rest t m as w
      | _ \<Rightarrow> rest t m as w)"

section \<open>Example implementations\<close>

text \<open>Two users, alice and bob, each logged in on a session of their own, no friendship and
  no request between them.\<close>

definition two_users :: world where
  "two_users =
     \<lparr>session_user = [VSession 1 \<mapsto> VOid 1, VSession 2 \<mapsto> VOid 2],
      accounts = [(VOid 1, ''alice'', ''pw1''), (VOid 2, ''bob'', ''pw2'')],
      friend_requests = Map.empty,
      friendships = []\<rparr>"


definition refuse_all :: "world exec" where
  "refuse_all = (\<lambda>t m as w. (Inl (Thrown (VStr ''not modelled'')), w))"

text \<open>Modules in which one method throws and every other returns; the state counts the
  calls.\<close>

definition failing_at :: "target \<Rightarrow> string \<Rightarrow> nat exec" where
  "failing_at t m = (\<lambda>t' m' as w.
     if t' = t \<and> m' = m then (Inl (Thrown (VStr ''refused'')), Suc w)
     else (Inr (VOid w), Suc w))"


section \<open>Running a handler step by step\<close>

lemma run_call:
  "run (call ex t m as) w = (case ex t m as w of (r, w1) \<Rightarrow> (r, w1, [(t, m, as, r)]))"
  by (simp add: run_def call_def)

lemma run_bind_call:
  "run (bind (call ex t m as) f) w =
     (case ex t m as w of
        (Inl e, w1) \<Rightarrow> (Inl e, w1, [(t, m, as, Inl e)])
      | (Inr a, w1) \<Rightarrow>
          (case run (f a) w1 of (r, w2, t2) \<Rightarrow> (r, w2, (t, m, as, Inr a) # t2)))"
  by (simp add: run_def bind_def call_def split: prod.splits sum.splits)

lemma run_bind_read_prop:
  "run (bind (read_prop v k) f) w =
     (case get_prop v k of Inl e \<Rightarrow> (Inl e, w, []) | Inr a \<Rightarrow> run (f a) w)"
  by (simp add: run_def bind_def read_prop_def split: prod.splits sum.splits)

lemma run_bind_console_log:
  "run (bind (console_log msg) f) w =
     (case run (f VUndefined) w of
        (r, w2, t2) \<Rightarrow> (r, w2, (Console, ''log'', [VStr msg], Inr VUndefined) # t2))"
  by (simp add: run_def bind_def console_log_def split: prod.splits)

lemma run_ret: "run (ret a) w = (Inr a, w, [])"
  by (simp add: run_def ret_def)

lemma app_exec_simps:
  "app_exec rest Sessioning ''getUser'' [s] w = sessioning_getUser s w"
  "app_exec rest Sessioning ''end'' [s] w = sessioning_end s w"
  "app_exec rest Authing ''getUserByUsername'' [a] w = authing_getUserByUsername a w"
  "app_exec rest Authing ''delete'' [a] w = authing_delete a w"
  "app_exec rest Friending ''sendRequest'' [a, b] w = friending_sendRequest a b w"
  "app_exec rest Friending ''acceptRequest'' [a, b] w = friending_acceptRequest a b w"
  "app_exec rest Friending ''rejectRequest'' [a, b] w = friending_rejectRequest a b w"
  by (simp_all add: app_exec_def)

section \<open>Ownership checks\<close>

text \<open>
  C1. The six routes that change or delete a post, a comment or an event (\<^verbatim>\<open>updatePost\<close>,
  \<^verbatim>\<open>deletePost\<close>, \<^verbatim>\<open>updateComment\<close>, \<^verbatim>\<open>deleteComment\<close>, \<^verbatim>\<open>updateEvent\<close>,
  \<^verbatim>\<open>deleteEvent\<close>) ask the concept to assert that the user of the session owns the
  target document before they change anything: once the session has yielded its user and
  the id its \<^verbatim>\<open>ObjectId\<close>, the third call is the assertion on that document and that
  user, and when the assertion throws (the user is not the owner) the handler fails with
  that error, in the state the assertion left, without a call to \<^verbatim>\<open>update\<close> or
  \<^verbatim>\<open>delete\<close>. When the assertion returns, the fourth and last call is the
  \<^verbatim>\<open>update\<close> or \<^verbatim>\<open>delete\<close> of the same concept on the same document, and its
  outcome is the outcome of the handler.
\<close>

theorem owner_asserted_before_mutation:
  assumes "ex Sessioning ''getUser'' [session] w = (Inr user, w1)"
    and "ex ObjectId ''new'' [VStr id'] w1 = (Inr oid, w2)"
    and "tr = [(Sessioning, ''getUser'', [session], Inr user),
               (ObjectId, ''new'', [VStr id'], Inr oid)]"
  shows
    "(ex Posting ''assertAuthorIsUser'' [oid, user] w2 = (Inl e, w3) \<longrightarrow>
        run (updatePost ex session id' content options) w =
          (Inl e, w3, tr @ [(Posting, ''assertAuthorIsUser'', [oid, user], Inl e)]) \<and>
        run (deletePost ex session id') w =
          (Inl e, w3, tr @ [(Posting, ''assertAuthorIsUser'', [oid, user], Inl e)]))
   \<and> (ex Commenting ''assertAuthorIsUser'' [oid, user] w2 = (Inl e, w3) \<longrightarrow>
        run (updateComment ex session id' content options) w =
          (Inl e, w3, tr @ [(Commenting, ''assertAuthorIsUser'', [oid, user], Inl e)]) \<and>
        run (deleteComment ex session id') w =
          (Inl e, w3, tr @ [(Commenting, ''assertAuthorIsUser'', [oid, user], Inl e)]))
   \<and> (ex Scheduling ''assertUserIsOwner'' [oid, user] w2 = (Inl e, w3) \<longrightarrow>
        run (updateEvent ex session id' name startTime endTime ty) w =
          (Inl e, w3, tr @ [(Scheduling, ''assertUserIsOwner'', [oid, user], Inl e)]) \<and>
        run (deleteEvent ex session id') w =
          (Inl e, w3, tr @ [(Scheduling, ''assertUserIsOwner'', [oid, user], Inl e)]))
   \<and> (ex Posting ''assertAuthorIsUser'' [oid, user] w2 = (Inr x, w3) \<longrightarrow>
        run (updatePost ex session id' content options) w =
          delegates ex (tr @ [(Posting, ''assertAuthorIsUser'', [oid, user], Inr x)])
            Posting ''update'' [oid, opt_str content, options] w3 \<and>
        run (deletePost ex session id') w =
          delegates ex (tr @ [(Posting, ''assertAuthorIsUser'', [oid, user], Inr x)])
            Posting ''delete'' [oid] w3)
   \<and> (ex Commenting ''assertAuthorIsUser'' [oid, user] w2 = (Inr x, w3) \<longrightarrow>
        run (updateComment ex session id' content options) w =
          delegates ex (tr @ [(Commenting, ''assertAuthorIsUser'', [oid, user], Inr x)])
            Commenting ''update'' [oid, opt_str content, options] w3 \<and>
        run (deleteComment ex session id') w =
          delegates ex (tr @ [(Commenting, ''assertAuthorIsUser'', [oid, user], Inr x)])
            Commenting ''delete'' [oid] w3)
   \<and> (ex Scheduling ''assertUserIsOwner'' [oid, user] w2 = (Inr x, w3) \<longrightarrow>
        run (updateEvent ex session id' name startTime endTime ty) w =
          delegates ex (tr @ [(Scheduling, ''assertUserIsOwner'', [oid, user], Inr x)])
            Scheduling ''update''
            [oid, opt_str name, opt_date startTime, opt_date endTime,
             VObj [(''type'', opt_type ty)]] w3 \<and>
        run (deleteEvent ex session id') w =
          delegates ex (tr @ [(Scheduling, ''assertUserIsOwner'', [oid, user], Inr x)])
            Scheduling ''delete'' [oid] w3)"
  using assms
  by (simp add: updatePost_def deletePost_def updateComment_def deleteComment_def
      updateEvent_def deleteEvent_def run_bind_call run_call delegates_def
      split: prod.splits)

theorem owner_asserted_before_mutation_witness:
  "run (updatePost (failing_at Posting ''assertAuthorIsUser'') (VSession 1) ''p1'' None VUndefined) 0 =
     (Inl (Thrown (VStr ''refused'')), 3,
      [(Sessioning, ''getUser'', [VSession 1], Inr (VOid 0)),
       (ObjectId, ''new'', [VStr ''p1''], Inr (VOid 1)),
       (Posting, ''assertAuthorIsUser'', [VOid 1, VOid 0], Inl (Thrown (VStr ''refused'')))])
   \<and> run (deleteComment (failing_at Commenting ''assertAuthorIsUser'') (VSession 1) ''c1'') 0 =
     (Inl (Thrown (VStr ''refused'')), 3,
      [(Sessioning, ''getUser'', [VSession 1], Inr (VOid 0)),
       (ObjectId, ''new'', [VStr ''c1''], Inr (VOid 1)),
       (Commenting, ''assertAuthorIsUser'', [VOid 1, VOid 0], Inl (Thrown (VStr ''refused'')))])
   \<and> run (deleteEvent (failing_at Scheduling ''assertUserIsOwner'') (VSession 1) ''e1'') 0 =
     (Inl (Thrown (VStr ''refused'')), 3,
      [(Sessioning, ''getUser'', [VSession 1], Inr (VOid 0)),
       (ObjectId, ''new'', [VStr ''e1''], Inr (VOid 1)),
       (Scheduling, ''assertUserIsOwner'', [VOid 1, VOid 0], Inl (Thrown (VStr ''refused'')))])
   \<and> run (deletePost (failing_at Posting ''delete'') (VSession 1) ''p1'') 0 =
     (Inl (Thrown (VStr ''refused'')), 4,
      [(Sessioning, ''getUser'', [VSession 1], Inr (VOid 0)),
       (ObjectId, ''new'', [VStr ''p1''], Inr (VOid 1)),
       (Posting, ''assertAuthorIsUser'', [VOid 1, VOid 0], Inr (VOid 2)),
       (Posting, ''delete'', [VOid 1], Inl (Thrown (VStr ''refused'')))])"
  using
    owner_asserted_before_mutation [where ex = "failing_at Posting ''delete''"
      and session = "VSession 1" and w = 0 and user = "VOid 0" and ?w1.0 = 1
      and id' = "''p1''" and oid = "VOid 1" and ?w2.0 = 2 and x = "VOid 2" and ?w3.0 = 3
      and tr = "[(Sessioning, ''getUser'', [VSession 1], Inr (VOid 0)),
        (ObjectId, ''new'', [VStr ''p1''], Inr (VOid 1))]"]
    owner_asserted_before_mutation [of "failing_at Posting ''assertAuthorIsUser''" "VSession 1" 0
      "VOid 0" 1 "''p1''" "VOid 1" 2 _ "Thrown (VStr ''refused'')" 3 None VUndefined]
    owner_asserted_before_mutation [of "failing_at Commenting ''assertAuthorIsUser''" "VSession 1" 0
      "VOid 0" 1 "''c1''" "VOid 1" 2 _ "Thrown (VStr ''refused'')" 3]
    owner_asserted_before_mutation [of "failing_at Scheduling ''assertUserIsOwner''" "VSession 1" 0
      "VOid 0" 1 "''e1''" "VOid 1" 2 _ "Thrown (VStr ''refused'')" 3]
  by (simp add: failing_at_def delegates_def)

section \<open>The route table\<close>

text \<open>
  C7, as the code has it. The comment operations are registered as
  \<^verbatim>\<open>GET /posts/:postId/comments\<close> (list), \<^verbatim>\<open>POST /comments/:postId\<close> (create),
  \<^verbatim>\<open>PATCH /comments/:id\<close> (update) and \<^verbatim>\<open>DELETE /comments/:id\<close> (delete); nothing
  is registered for \<^verbatim>\<open>POST /posts/:postId/comments\<close>, and \<^verbatim>\<open>createComment\<close> has no
  other registration.
\<close>

theorem comment_routes:
  "registered_at GET ''/posts/:postId/comments'' = [''getComments'']
 \<and> registered_at POST ''/comments/:postId'' = [''createComment'']
 \<and> registered_at PATCH ''/comments/:id'' = [''updateComment'']
 \<and> registered_at DELETE ''/comments/:id'' = [''deleteComment'']
 \<and> registered_at POST ''/posts/:postId/comments'' = []
 \<and> registrations_of ''createComment'' = [(POST, ''/comments/:postId'')]"
  by (simp add: registered_at_def registrations_of_def routes_def)

text \<open>C7 as the spec states it fails: comment creation is not registered under
  \<^verbatim>\<open>/posts/:postId/comments\<close>.\<close>

theorem comment_creation_not_under_posts:
  "(POST, ''/posts/:postId/comments'') \<notin> set (registrations_of ''createComment'')"
  by (simp add: registrations_of_def routes_def)


section \<open>Account creation\<close>

text \<open>
  C3. \<^verbatim>\<open>createUser\<close> first makes the check \<^verbatim>\<open>Sessioning.isLoggedOut(session)\<close>. When
  the check throws (the session is logged in) the handler fails with that error, in the
  state the check left, and \<^verbatim>\<open>Authing.create\<close> is not called: no account is created.
  When the check returns, the handler calls \<^verbatim>\<open>Authing.create(username, password)\<close> and
  its outcome is the outcome of the handler.
\<close>

theorem createUser_requires_logged_out:
  "(ex Sessioning ''isLoggedOut'' [session] w = (Inl e, w1) \<longrightarrow>
      run (createUser ex session username password) w =
        (Inl e, w1, [(Sessioning, ''isLoggedOut'', [session], Inl e)]))
 \<and> (ex Sessioning ''isLoggedOut'' [session] w = (Inr x, w1) \<and>
    ex Authing ''create'' [VStr username, VStr password] w1 = (r, w2) \<longrightarrow>
      run (createUser ex session username password) w =
        (r, w2, [(Sessioning, ''isLoggedOut'', [session], Inr x),
                 (Authing, ''create'', [VStr username, VStr password], r)]))"
  by (simp add: createUser_def run_bind_call run_call)

theorem createUser_requires_logged_out_witness:
  "run (createUser (failing_at Sessioning ''isLoggedOut'') (VSession 1) ''alice'' ''pw1'') 0 =
     (Inl (Thrown (VStr ''refused'')), 1,
      [(Sessioning, ''isLoggedOut'', [VSession 1], Inl (Thrown (VStr ''refused'')))])
 \<and> run (createUser (failing_at Posting ''create'') (VSession 1) ''alice'' ''pw1'') 0 =
     (Inr (VOid 1), 2,
      [(Sessioning, ''isLoggedOut'', [VSession 1], Inr (VOid 0)),
       (Authing, ''create'', [VStr ''alice'', VStr ''pw1''], Inr (VOid 1))])"
  using
    createUser_requires_logged_out [where ex = "failing_at Sessioning ''isLoggedOut''"
      and session = "VSession 1" and w = 0 and e = "Thrown (VStr ''refused'')" and ?w1.0 = 1
      and username = "''alice''" and password = "''pw1''"]
    createUser_requires_logged_out [where ex = "failing_at Posting ''create''"
      and session = "VSession 1" and w = 0 and x = "VOid 0" and ?w1.0 = 1
      and username = "''alice''" and password = "''pw1''" and r = "Inr (VOid 1)" and ?w2.0 = 2]
  by (simp add: failing_at_def)

section \<open>Friend routes\<close>

text \<open>
  C6. \<^verbatim>\<open>removeFriend\<close>, \<^verbatim>\<open>sendFriendRequest\<close>, \<^verbatim>\<open>removeFriendRequest\<close>,
  \<^verbatim>\<open>acceptFriendRequest\<close> and \<^verbatim>\<open>rejectFriendRequest\<close> resolve the username of the path
  to a user id with \<^verbatim>\<open>Authing.getUserByUsername\<close> before they turn to Friending. For the
  user of the session: when the lookup throws (the username is no user's), each of the five
  fails with that error after exactly two calls, the one to \<^verbatim>\<open>Sessioning.getUser\<close> and
  the lookup, and with no call to Friending; the same holds with a \<^verbatim>\<open>TypeError\<close> when the
  lookup returns no document to read an \<^verbatim>\<open>_id\<close> from. When the lookup returns a user,
  the third and last call is the one method of Friending, on the session's user and the
  \<^verbatim>\<open>_id\<close> of the user that was looked up (for accept and reject: from that user to the
  session's), and its outcome is the outcome of the handler.
\<close>

theorem friend_routes_resolve_username_first:
  assumes "ex Sessioning ''getUser'' [session] w = (Inr user, w1)"
    and "got = (Sessioning, ''getUser'', [session], Inr user)"
  shows
    "(ex Authing ''getUserByUsername'' [VStr username] w1 = (Inl e, w2) \<and>
      tr = [got, (Authing, ''getUserByUsername'', [VStr username], Inl e)] \<longrightarrow>
        run (removeFriend ex session username) w = (Inl e, w2, tr)
      \<and> run (sendFriendRequest ex session username) w = (Inl e, w2, tr)
      \<and> run (removeFriendRequest ex session username) w = (Inl e, w2, tr)
      \<and> run (acceptFriendRequest ex session username) w = (Inl e, w2, tr)
      \<and> run (rejectFriendRequest ex session username) w = (Inl e, w2, tr))
   \<and> (ex Authing ''getUserByUsername'' [VStr username] w1 = (Inr u, w2) \<and>
      get_prop u ''_id'' = Inl e \<and>
      tr = [got, (Authing, ''getUserByUsername'', [VStr username], Inr u)] \<longrightarrow>
        run (removeFriend ex session username) w = (Inl e, w2, tr)
      \<and> run (sendFriendRequest ex session username) w = (Inl e, w2, tr)
      \<and> run (removeFriendRequest ex session username) w = (Inl e, w2, tr)
      \<and> run (acceptFriendRequest ex session username) w = (Inl e, w2, tr)
      \<and> run (rejectFriendRequest ex session username) w = (Inl e, w2, tr))
   \<and> (ex Authing ''getUserByUsername'' [VStr username] w1 = (Inr u, w2) \<and>
      get_prop u ''_id'' = Inr oid \<and>
      tr = [got, (Authing, ''getUserByUsername'', [VStr username], Inr u)] \<longrightarrow>
        run (removeFriend ex session username) w =
          delegates ex tr Friending ''removeFriend'' [user, oid] w2
      \<and> run (sendFriendRequest ex session username) w =
          delegates ex tr Friending ''sendRequest'' [user, oid] w2
      \<and> run (removeFriendRequest ex session username) w =
          delegates ex tr Friending ''removeRequest'' [user, oid] w2
      \<and> run (acceptFriendRequest ex session username) w =
          delegates ex tr Friending ''acceptRequest'' [oid, user] w2
      \<and> run (rejectFriendRequest ex session username) w =
          delegates ex tr Friending ''rejectRequest'' [oid, user] w2)"
  using assms
  by (simp add: removeFriend_def sendFriendRequest_def removeFriendRequest_def
      acceptFriendRequest_def rejectFriendRequest_def run_bind_call run_bind_read_prop
      run_call delegates_def split: prod.splits)

theorem friend_routes_resolve_username_first_witness:
  "run (sendFriendRequest (failing_at Authing ''getUserByUsername'') (VSession 1) ''nobody'') 0 =
     (Inl (Thrown (VStr ''refused'')), 2,
      [(Sessioning, ''getUser'', [VSession 1], Inr (VOid 0)),
       (Authing, ''getUserByUsername'', [VStr ''nobody''], Inl (Thrown (VStr ''refused'')))])
 \<and> run (removeFriend (\<lambda>t m as w. (Inr VNull, Suc w)) (VSession 1) ''bob'') 0 =
     (Inl TypeError, 2,
      [(Sessioning, ''getUser'', [VSession 1], Inr VNull),
       (Authing, ''getUserByUsername'', [VStr ''bob''], Inr VNull)])
 \<and> run (acceptFriendRequest (app_exec refuse_all) (VSession 2) ''alice'') two_users =
     (Inl (Thrown (VStr ''not-found'')), two_users,
      [(Sessioning, ''getUser'', [VSession 2], Inr (VOid 2)),
       (Authing, ''getUserByUsername'', [VStr ''alice''],
        Inr (VObj [(''_id'', VOid 1), (''username'', VStr ''alice'')])),
       (Friending, ''acceptRequest'', [VOid 1, VOid 2], Inl (Thrown (VStr ''not-found'')))])"
  using
    friend_routes_resolve_username_first [where ex = "failing_at Authing ''getUserByUsername''"
      and session = "VSession 1" and w = 0 and user = "VOid 0" and ?w1.0 = 1
      and username = "''nobody''" and e = "Thrown (VStr ''refused'')" and ?w2.0 = 2
      and tr = "[(Sessioning, ''getUser'', [VSession 1], Inr (VOid 0)),
        (Authing, ''getUserByUsername'', [VStr ''nobody''], Inl (Thrown (VStr ''refused'')))]"]
    friend_routes_resolve_username_first [where ex = "\<lambda>t m as w. (Inr VNull, Suc w)"
      and session = "VSession 1" and w = 0 and user = VNull and ?w1.0 = 1
      and username = "''bob''" and u = VNull and e = TypeError and ?w2.0 = 2
      and tr = "[(Sessioning, ''getUser'', [VSession 1], Inr VNull),
        (Authing, ''getUserByUsername'', [VStr ''bob''], Inr VNull)]"]
    friend_routes_resolve_username_first [where ex = "app_exec refuse_all"
      and session = "VSession 2" and w = two_users and user = "VOid 2" and ?w1.0 = two_users
      and username = "''alice''"
      and u = "VObj [(''_id'', VOid 1), (''username'', VStr ''alice'')]"
      and oid = "VOid 1" and ?w2.0 = two_users
      and tr = "[(Sessioning, ''getUser'', [VSession 2], Inr (VOid 2)),
        (Authing, ''getUserByUsername'', [VStr ''alice''],
         Inr (VObj [(''_id'', VOid 1), (''username'', VStr ''alice'')]))]"]
  by (simp add: failing_at_def app_exec_simps sessioning_getUser_def
      authing_getUserByUsername_def user_named_def friending_acceptRequest_def is_pending_def
      delegates_def two_users_def)








section \<open>Deleting the account, logging in\<close>



text \<open>
  C9. \<^verbatim>\<open>deleteUser\<close> ends the session before it deletes the account: for a logged-in
  session, when \<^verbatim>\<open>Authing.delete\<close> throws, \<^verbatim>\<open>Sessioning.end(session)\<close> has already
  run and returned, the handler fails with the error of \<^verbatim>\<open>Authing.delete\<close>, and it makes
  no further call: the state is the one the failed deletion left after the session was
  ended, and nothing starts the session again.
\<close>

theorem deleteUser_ends_session_before_delete:
  assumes "ex Sessioning ''getUser'' [session] w = (Inr user, w1)"
    and "ex Sessioning ''end'' [session] w1 = (Inr x, w2)"
    and "ex Authing ''delete'' [user] w2 = (Inl e, w3)"
  shows "run (deleteUser ex session) w =
     (Inl e, w3, [(Sessioning, ''getUser'', [session], Inr user),
                  (Sessioning, ''end'', [session], Inr x),
                  (Authing, ''delete'', [user], Inl e)])"
  using assms by (simp add: deleteUser_def run_bind_call run_call)

theorem deleteUser_ends_session_before_delete_witness:
  "run (deleteUser (failing_at Authing ''delete'') (VSession 1)) 0 =
     (Inl (Thrown (VStr ''refused'')), 3,
      [(Sessioning, ''getUser'', [VSession 1], Inr (VOid 0)),
       (Sessioning, ''end'', [VSession 1], Inr (VOid 1)),
       (Authing, ''delete'', [VOid 0], Inl (Thrown (VStr ''refused'')))])"
  using deleteUser_ends_session_before_delete [where ex = "failing_at Authing ''delete''"
      and session = "VSession 1" and w = 0 and user = "VOid 0" and ?w1.0 = 1
      and x = "VOid 1" and ?w2.0 = 2 and e = "Thrown (VStr ''refused'')" and ?w3.0 = 3]
  by (simp add: failing_at_def)

text \<open>
  C10. \<^verbatim>\<open>logIn\<close> authenticates first: when \<^verbatim>\<open>Authing.authenticate(username, password)\<close>
  throws, the handler fails with that error and the authentication is its only call. There
  is no call to \<^verbatim>\<open>Sessioning.start\<close> or to any other method of Sessioning, and the state
  is the one the failed authentication left.
\<close>

theorem logIn_starts_session_after_authenticate:
  assumes "ex Authing ''authenticate'' [VStr username, VStr password] w = (Inl e, w1)"
  shows "run (logIn ex session username password) w =
     (Inl e, w1, [(Authing, ''authenticate'', [VStr username, VStr password], Inl e)])"
  using assms by (simp add: logIn_def run_bind_call)

theorem logIn_starts_session_after_authenticate_witness:
  "run (logIn (failing_at Authing ''authenticate'') (VSession 1) ''alice'' ''wrong'') 0 =
     (Inl (Thrown (VStr ''refused'')), 1,
      [(Authing, ''authenticate'', [VStr ''alice'', VStr ''wrong''], Inl (Thrown (VStr ''refused'')))])"
  using logIn_starts_session_after_authenticate [where ex = "failing_at Authing ''authenticate''"
      and username = "''alice''" and password = "''wrong''" and w = 0
      and e = "Thrown (VStr ''refused'')" and ?w1.0 = 1 and session = "VSession 1"]
  by (simp add: failing_at_def)

section \<open>All handlers\<close>

lemmas handler_defs =
  getSessionUser_def getUsers_def getUser_def createUser_def updateUsername_def
  updatePassword_def deleteUser_def logIn_def logOut_def getPosts_def createPost_def
  updatePost_def deletePost_def getFriends_def removeFriend_def getRequests_def
  sendFriendRequest_def removeFriendRequest_def acceptFriendRequest_def
  rejectFriendRequest_def getComments_def createComment_def updateComment_def
  deleteComment_def getEvents_def createEvent_def updateEvent_def deleteEvent_def

text \<open>
  C4. Every handler that acts for the user of the session gets that user first: in every
  run, the first call that leaves the route layer (the \<^verbatim>\<open>console.log\<close> lines of
  \<^verbatim>\<open>createComment\<close> aside) is \<^verbatim>\<open>Sessioning.getUser(session)\<close>; and when that call
  throws (the session is logged out), the handler fails with that error, in the state the
  call left, and has made no other call into a module.
\<close>

theorem session_routes_call_getUser_first:
  assumes "acting_session req = Some session"
    and "ex Sessioning ''getUser'' [session] w = (r, w1)"
    and "run (handle ex req) w = (res, w', tr)"
  shows "take 1 (module_calls tr) = [(Sessioning, ''getUser'', [session], r)]
       \<and> (isl r \<longrightarrow> res = r \<and> w' = w1 \<and> module_calls tr = [(Sessioning, ''getUser'', [session], r)])"
  using assms
  by (cases req)
    (auto simp: handler_defs run_bind_call run_bind_console_log module_calls_def
      split: prod.splits sum.splits)

theorem session_routes_call_getUser_first_witness:
  "acting_session (DeletePost (VSession 1) ''p1'') = Some (VSession 1)
 \<and> run (handle (failing_at Sessioning ''getUser'') (DeletePost (VSession 1) ''p1'')) 0 =
     (Inl (Thrown (VStr ''refused'')), 1,
      [(Sessioning, ''getUser'', [VSession 1], Inl (Thrown (VStr ''refused'')))])
 \<and> module_calls [(Sessioning, ''getUser'', [VSession 1], Inl (Thrown (VStr ''refused'')))] =
     [(Sessioning, ''getUser'', [VSession 1], Inl (Thrown (VStr ''refused'')))]"
proof -
  have a: "acting_session (DeletePost (VSession 1) ''p1'') = Some (VSession 1)"
    by simp
  have g: "failing_at Sessioning ''getUser'' Sessioning ''getUser'' [VSession 1] 0 =
      (Inl (Thrown (VStr ''refused'')), 1)"
    by (simp add: failing_at_def)
  have r: "run (handle (failing_at Sessioning ''getUser'') (DeletePost (VSession 1) ''p1'')) 0 =
     (Inl (Thrown (VStr ''refused'')), 1,
      [(Sessioning, ''getUser'', [VSession 1], Inl (Thrown (VStr ''refused'')))])"
    by (simp add: deletePost_def run_bind_call failing_at_def)
  from session_routes_call_getUser_first [OF a g r] a r show ?thesis
    by simp
qed

subsection \<open>Failures pass through\<close>

lemma returned_append: "returned (t1 @ t2) = (returned t1 \<and> returned t2)"
  by (induction t1) (auto split: sum.splits)

lemma returned_propagates: "returned tr \<Longrightarrow> propagates res tr"
  by (induction tr) (auto split: sum.splits)

lemma propagates_append: "returned t1 \<Longrightarrow> propagates res (t1 @ t2) = propagates res t2"
  by (induction t1) (auto split: sum.splits)

lemma transparent_ret: "transparent (ret a)"
  by (simp add: transparent_def ret_def)

lemma transparent_call: "transparent (call ex t m as)"
  by (auto simp: transparent_def call_def split: prod.splits sum.splits)

lemma transparent_read_prop: "transparent (read_prop v k)"
  by (auto simp: transparent_def read_prop_def split: prod.splits sum.splits)

lemma transparent_console_log: "transparent (console_log msg)"
  by (simp add: transparent_def console_log_def)

lemma transparent_bind:
  assumes "transparent m" and "\<And>a. transparent (f a)"
  shows "transparent (bind m f)"
  unfolding transparent_def
proof
  fix w
  obtain r1 w1 t1 where m: "m w = (r1, w1, t1)" by (cases "m w")
  show "case bind m f w of (res, w1, tr) \<Rightarrow>
      (case res of Inl e \<Rightarrow> propagates (Inl e) tr | Inr a \<Rightarrow> returned tr)"
  proof (cases r1)
    case (Inl e)
    with assms(1) m show ?thesis
      by (auto simp: transparent_def bind_def dest!: spec [of _ w])
  next
    case (Inr a)
    obtain r2 w2 t2 where f: "f a w1 = (r2, w2, t2)" by (cases "f a w1")
    from assms(1) m Inr have t1: "returned t1"
      by (auto simp: transparent_def dest!: spec [of _ w])
    from assms(2) [of a] f have "case r2 of Inl e \<Rightarrow> propagates (Inl e) t2 | Inr a \<Rightarrow> returned t2"
      by (auto simp: transparent_def dest!: spec [of _ w1])
    with t1 m Inr f show ?thesis
      by (auto simp: bind_def propagates_append returned_append split: sum.splits)
  qed
qed

lemma transparent_if:
  "transparent m \<Longrightarrow> transparent n \<Longrightarrow> transparent (if c then m else n)"
  by simp

lemmas transparent_intros =
  transparent_bind transparent_if transparent_call transparent_ret transparent_read_prop
  transparent_console_log

lemma transparent_handle: "transparent (handle ex req)"
  by (cases req) (simp_all only: handle.simps handler_defs, (intro transparent_intros)+)

lemma transparent_propagates:
  assumes "transparent m"
  shows "propagates (fst (run m w)) (snd (snd (run m w)))"
proof -
  obtain res w1 tr where m: "m w = (res, w1, tr)" by (cases "m w")
  with assms have "case res of Inl e \<Rightarrow> propagates (Inl e) tr | Inr a \<Rightarrow> returned tr"
    by (auto simp: transparent_def dest!: spec [of _ w])
  then have "propagates res tr"
    by (cases res) (simp_all add: returned_propagates)
  with m show ?thesis by (simp add: run_def)
qed

text \<open>
  C8. No handler of \<^verbatim>\<open>Routes\<close> catches, retries or changes a failure: in every run of
  every handler, over every implementation of the modules, a call that throws is the last
  call the handler makes, and the handler fails with the error of that call.
\<close>

theorem failures_propagate:
  "propagates (fst (run (handle ex req) w)) (snd (snd (run (handle ex req) w)))"
  by (rule transparent_propagates [OF transparent_handle])

theorem failures_propagate_witness:
  "fst (run (handle (failing_at Posting ''delete'') (DeletePost (VSession 1) ''p1'')) 0) =
     Inl (Thrown (VStr ''refused''))
 \<and> propagates (Inl (Thrown (VStr ''refused'')))
     (snd (snd (run (handle (failing_at Posting ''delete'') (DeletePost (VSession 1) ''p1'')) 0)))"
  using failures_propagate [of "failing_at Posting ''delete''" "DeletePost (VSession 1) ''p1''" 0]
  by (simp add: deletePost_def run_bind_call run_call failing_at_def)

end
